theory Spec2Isabelle
  imports Main
begin

section \<open>Data model\<close>

text \<open>
  The experiment controller: the reconcile loop of the experiment package and the
  target handling of the targets package. Go's \<open>error\<close> is \<open>error option\<close>
  (\<open>None\<close> is \<open>nil\<close>); of an error the code inspects only whether it is a
  not-found error of the cluster API, and its text.
\<close>

datatype error = Error (IsNotFound: bool) (ErrorText: string)

text \<open>
  Points in time and durations are integers (nanoseconds); the arithmetic of the
  time library is taken without its saturation at the ends of the 64-bit range.
\<close>

type_synonym time = int

text \<open>The constants declared at the head of the controller file.\<close>

definition KubernetesService :: string where
  "KubernetesService = ''v1''"

definition KnativeServiceV1Alpha1 :: string where
  "KnativeServiceV1Alpha1 = ''serving.knative.dev/v1alpha1''"

definition Finalizer :: string where
  "Finalizer = ''finalizer.iter8-tools''"

text \<open>
  Modelled from the spec: the API package that declares the experiment type and
  its constants. The phase the gate compares with, the action that forces a failure,
  the cleanup policy that deletes, the kinds of conditions and the three condition
  states are the ones the data model of the specification lists; phase, action and
  cleanup policy are string types in the code (the event filter takes the length
  of an action). The records of the experiment, of its spec and of its status hold
  the fields of that data model which the code reads or writes, under the names
  the code uses for them.
\<close>

definition PhaseCompleted :: string where
  "PhaseCompleted = ''Completed''"

definition ActionOverrideFailure :: string where
  "ActionOverrideFailure = ''overrideFailure''"

definition CleanUpDelete :: string where
  "CleanUpDelete = ''delete''"

datatype conditionStatus = ConditionTrue | ConditionFalse | ConditionUnknown

datatype conditionKind =
    ExperimentConditionTargetsProvided
  | ExperimentConditionMetricsSynced
  | ExperimentConditionAnalyticsServiceNormal
  | ExperimentConditionRoutingRulesReady
  | ExperimentConditionExperimentSucceeded
  | ExperimentConditionExperimentCompleted

record experimentCondition =
  CondStatus :: conditionStatus
  Reason :: string
  Message :: string

record trafficControl =
  MaxIterations :: int
  IntervalText :: string
  TrafficStepSize :: int

record experimentSpec =
  TargetService_APIVersion :: string
  TargetService_Name :: string
  BaselineName :: string
  CandidateName :: string
  TrafficControl :: trafficControl
  Analysis_SuccessCriteria :: "string list"
  CleanUp :: string

record experimentStatus =
  Phase :: string
  Conditions :: "(conditionKind \<times> experimentCondition) list"
  TrafficSplit_Baseline :: int
  TrafficSplit_Candidate :: int
  CurrentIteration :: int
  LastIncrementTime :: time
  CreateTimestamp :: int
  EndTimestamp :: int

record Experiment =
  Name :: string
  Namespace :: string
  Finalizers :: "string list"
  DeletionTimestamp :: "time option"
  Spec :: experimentSpec
  Status :: experimentStatus
  Action :: string
  Metrics :: "string list"

text \<open>
  Modelled from the spec: \<open>GetCondition\<close> belongs to the API package. The status
  holds a mapping from condition kind to condition; a kind that has no entry reads
  as \<open>nil\<close>, which the callers test for.
\<close>

definition GetCondition :: "experimentStatus \<Rightarrow> conditionKind \<Rightarrow> experimentCondition option" where
  "GetCondition st k = map_of (Conditions st) k"

text \<open>The request of a reconcile is a namespaced name; its result is the requeue order.\<close>

record request =
  ReqName :: string
  ReqNamespace :: string

record result =
  Requeue :: bool
  RequeueAfter :: int

definition emptyResult :: result where
  "emptyResult = \<lparr>Requeue = False, RequeueAfter = 0\<rparr>"

text \<open>The three target objects of an experiment, each by its key in the cluster.\<close>

record targets =
  TargetService :: string
  Baseline :: string
  Candidate :: string

section \<open>Effects\<close>

text \<open>
  Every call that leaves the function under study is recorded, in order, as an
  event: the calls of the cluster client, of the cache, and of the functions of
  this controller that are defined in its other files. Error-level log lines are
  events as well; info-level lines are left out.
\<close>

datatype event =
    EvGet request
  | EvRegisterExperiment Experiment
  | EvRemoveExperiment Experiment
  | EvUpdate Experiment
  | EvStatusUpdate Experiment
  | EvDelete string
  | EvLogError string
  | EvMetricsRead Experiment
  | EvMarkSyncMetricsError Experiment
  | EvMarkSyncMetrics Experiment
  | EvCheckOrInitRules Experiment
  | EvDetectTargets Experiment
  | EvProgressExperiment Experiment
  | EvCheckExperimentCompleted Experiment
  | EvSyncKnative Experiment
  | EvFinalizeKnative Experiment

type_synonym history = "event list"

text \<open>
  The state a reconcile works on: the experiment instance, which the code mutates
  through a pointer, and the history of events so far.
\<close>

record state =
  inst :: Experiment
  hist :: history

text \<open>
  A function returns a result and an error, or panics (a nil pointer is
  dereferenced).
\<close>

datatype outcome = Return result "error option" | Panic

text \<open>
  The environment: what the cluster and the other parts of the controller answer.
  Each answer may depend on everything that happened before, so it is a function
  of the history and of the instance passed in; a call that mutates the instance
  returns the new one. \<open>clientUpdate\<close>, \<open>clientStatusUpdate\<close>, \<open>clientGet\<close> and
  \<open>clientDelete\<close> are the cluster client; \<open>timeNow\<close> is the clock; the others are
  the functions of this controller and of its API and utility packages that the
  code below calls and that are defined elsewhere, taken as parameters.
  \<open>ExperimentAbstract\<close> is \<open>None\<close> when the context holds no abstract of the
  experiment, and otherwise what \<open>Terminate\<close> answers on it.
\<close>

record env =
  clientGet :: "history \<Rightarrow> request \<Rightarrow> error + Experiment"
  clientUpdate :: "history \<Rightarrow> Experiment \<Rightarrow> error option"
  clientStatusUpdate :: "history \<Rightarrow> Experiment \<Rightarrow> error option"
  clientDelete :: "history \<Rightarrow> string \<Rightarrow> error option"
  timeNow :: time
  validUpdateErr :: "error \<Rightarrow> bool"
  TerminateExperiment :: "string \<Rightarrow> bool"
  GetIntervalDuration :: "trafficControl \<Rightarrow> int \<times> error option"
  GetStableTarget :: "history \<Rightarrow> Experiment \<Rightarrow> string"
  ExperimentAbstract :: "history \<Rightarrow> bool option"
  StatusInit :: "experimentStatus \<Rightarrow> experimentStatus"
  MarkTargetsError :: "string \<Rightarrow> string \<Rightarrow> string list \<Rightarrow> experimentStatus \<Rightarrow> experimentStatus"
  metricsRead :: "history \<Rightarrow> Experiment \<Rightarrow> Experiment \<times> error option"
  MarkSyncMetricsError :: "history \<Rightarrow> Experiment \<Rightarrow> error \<Rightarrow> Experiment"
  MarkSyncMetrics :: "history \<Rightarrow> Experiment \<Rightarrow> Experiment"
  checkOrInitRules :: "history \<Rightarrow> Experiment \<Rightarrow> Experiment \<times> bool \<times> error option"
  detectTargetsOf :: "history \<Rightarrow> Experiment \<Rightarrow> Experiment \<times> bool \<times> error option"
  progressExperiment :: "history \<Rightarrow> Experiment \<Rightarrow> Experiment \<times> error option"
  checkExperimentCompleted :: "history \<Rightarrow> Experiment \<Rightarrow> Experiment \<times> bool \<times> error option"
  syncKnative :: "history \<Rightarrow> Experiment \<Rightarrow> Experiment \<times> outcome"
  finalizeKnative :: "history \<Rightarrow> Experiment \<Rightarrow> Experiment \<times> outcome"

text \<open>\<open>err != nil && !validUpdateErr(err)\<close>, the test after every write of the controller.\<close>

definition invalidUpdateErr :: "env \<Rightarrow> error option \<Rightarrow> bool" where
  "invalidUpdateErr env err = (case err of None \<Rightarrow> False | Some e \<Rightarrow> \<not> validUpdateErr env e)"

text \<open>The two writes of the cluster client: the object itself, and its status.\<close>

definition Update :: "env \<Rightarrow> state \<Rightarrow> error option \<times> state" where
  "Update env s = (clientUpdate env (hist s) (inst s), s\<lparr>hist := hist s @ [EvUpdate (inst s)]\<rparr>)"

definition StatusUpdate :: "env \<Rightarrow> state \<Rightarrow> error option \<times> state" where
  "StatusUpdate env s =
     (clientStatusUpdate env (hist s) (inst s), s\<lparr>hist := hist s @ [EvStatusUpdate (inst s)]\<rparr>)"

section \<open>The finalizer token\<close>

text \<open>The loop of \<open>addFinalizerIfAbsent\<close>: is the name among the finalizers?\<close>

primrec finalizerPresent :: "string list \<Rightarrow> string \<Rightarrow> bool" where
  "finalizerPresent [] fName = False"
| "finalizerPresent (finalizer # rest) fName =
     (if finalizer = fName then True else finalizerPresent rest fName)"

definition addFinalizerIfAbsent :: "env \<Rightarrow> state \<Rightarrow> string \<Rightarrow> error option \<times> state" where
  "addFinalizerIfAbsent env s fName =
     (if finalizerPresent (Finalizers (inst s)) fName then (None, s)
      else Update env (s\<lparr>inst := (inst s)\<lparr>Finalizers := Finalizers (inst s) @ [Finalizer]\<rparr>\<rparr>))"

text \<open>The loop of \<open>removeFinalizer\<close> keeps the finalizers other than the name.\<close>

primrec withoutFinalizer :: "string list \<Rightarrow> string \<Rightarrow> string list" where
  "withoutFinalizer [] fName = []"
| "withoutFinalizer (f # rest) fName =
     (if f \<noteq> fName then f # withoutFinalizer rest fName else withoutFinalizer rest fName)"

definition removeFinalizer :: "env \<Rightarrow> state \<Rightarrow> string \<Rightarrow> error option \<times> state" where
  "removeFinalizer env s fName =
     Update env (s\<lparr>inst := (inst s)\<lparr>Finalizers := withoutFinalizer (Finalizers (inst s)) fName\<rparr>\<rparr>)"

section \<open>Calls into the rest of the controller\<close>

text \<open>
  Each call hands over the instance, takes back the mutated one and leaves its
  event. The functions called are taken to return; the one panic that the code
  below can raise by itself is in \<open>detectTargets\<close>.
\<close>

definition logError :: "state \<Rightarrow> string \<Rightarrow> state" where
  "logError s msg = s\<lparr>hist := hist s @ [EvLogError msg]\<rparr>"

definition Delete :: "env \<Rightarrow> state \<Rightarrow> string \<Rightarrow> error option \<times> state" where
  "Delete env s obj = (clientDelete env (hist s) obj, s\<lparr>hist := hist s @ [EvDelete obj]\<rparr>)"

definition RegisterExperiment :: "state \<Rightarrow> state" where
  "RegisterExperiment s = s\<lparr>hist := hist s @ [EvRegisterExperiment (inst s)]\<rparr>"

definition RemoveExperiment :: "state \<Rightarrow> state" where
  "RemoveExperiment s = s\<lparr>hist := hist s @ [EvRemoveExperiment (inst s)]\<rparr>"

definition callMetricsRead :: "env \<Rightarrow> state \<Rightarrow> error option \<times> state" where
  "callMetricsRead env s =
     (case metricsRead env (hist s) (inst s) of
        (i, err) \<Rightarrow> (err, \<lparr>inst = i, hist = hist s @ [EvMetricsRead (inst s)]\<rparr>))"

definition callMarkSyncMetricsError :: "env \<Rightarrow> state \<Rightarrow> error \<Rightarrow> state" where
  "callMarkSyncMetricsError env s err =
     \<lparr>inst = MarkSyncMetricsError env (hist s) (inst s) err,
      hist = hist s @ [EvMarkSyncMetricsError (inst s)]\<rparr>"

definition callMarkSyncMetrics :: "env \<Rightarrow> state \<Rightarrow> state" where
  "callMarkSyncMetrics env s =
     \<lparr>inst = MarkSyncMetrics env (hist s) (inst s),
      hist = hist s @ [EvMarkSyncMetrics (inst s)]\<rparr>"

definition callCheckOrInitRules :: "env \<Rightarrow> state \<Rightarrow> (bool \<times> error option) \<times> state" where
  "callCheckOrInitRules env s =
     (case checkOrInitRules env (hist s) (inst s) of
        (i, updateStatus, err) \<Rightarrow>
          ((updateStatus, err), \<lparr>inst = i, hist = hist s @ [EvCheckOrInitRules (inst s)]\<rparr>))"

definition callDetectTargets :: "env \<Rightarrow> state \<Rightarrow> (bool \<times> error option) \<times> state" where
  "callDetectTargets env s =
     (case detectTargetsOf env (hist s) (inst s) of
        (i, updateStatus, err) \<Rightarrow>
          ((updateStatus, err), \<lparr>inst = i, hist = hist s @ [EvDetectTargets (inst s)]\<rparr>))"

definition callProgressExperiment :: "env \<Rightarrow> state \<Rightarrow> error option \<times> state" where
  "callProgressExperiment env s =
     (case progressExperiment env (hist s) (inst s) of
        (i, err) \<Rightarrow> (err, \<lparr>inst = i, hist = hist s @ [EvProgressExperiment (inst s)]\<rparr>))"

definition callCheckExperimentCompleted :: "env \<Rightarrow> state \<Rightarrow> (bool \<times> error option) \<times> state" where
  "callCheckExperimentCompleted env s =
     (case checkExperimentCompleted env (hist s) (inst s) of
        (i, completed, err) \<Rightarrow>
          ((completed, err), \<lparr>inst = i, hist = hist s @ [EvCheckExperimentCompleted (inst s)]\<rparr>))"

definition callSyncKnative :: "env \<Rightarrow> state \<Rightarrow> outcome \<times> state" where
  "callSyncKnative env s =
     (case syncKnative env (hist s) (inst s) of
        (i, out) \<Rightarrow> (out, \<lparr>inst = i, hist = hist s @ [EvSyncKnative (inst s)]\<rparr>))"

definition callFinalizeKnative :: "env \<Rightarrow> state \<Rightarrow> outcome \<times> state" where
  "callFinalizeKnative env s =
     (case finalizeKnative env (hist s) (inst s) of
        (i, out) \<Rightarrow> (out, \<lparr>inst = i, hist = hist s @ [EvFinalizeKnative (inst s)]\<rparr>))"

section \<open>The Kubernetes family: targets.go\<close>

text \<open>
  \<open>Cleanup\<close>. The error of the delete is logged when it is a not-found error and
  dropped otherwise; a stable target other than the two named ones matches no case.
\<close>

definition isNotFoundErr :: "error option \<Rightarrow> bool" where
  "isNotFoundErr err = (case err of None \<Rightarrow> False | Some e \<Rightarrow> IsNotFound e)"

definition setTrafficSplit :: "state \<Rightarrow> int \<Rightarrow> int \<Rightarrow> state" where
  "setTrafficSplit s b c =
     s\<lparr>inst := (inst s)\<lparr>Status := (Status (inst s))
        \<lparr>TrafficSplit_Baseline := b, TrafficSplit_Candidate := c\<rparr>\<rparr>\<rparr>"

definition Cleanup :: "env \<Rightarrow> targets \<Rightarrow> state \<Rightarrow> state" where
  "Cleanup env t s =
     (if CleanUp (Spec (inst s)) = CleanUpDelete then
        (let stable = GetStableTarget env (hist s) (inst s) in
         if stable = ''baseline'' then
           (case Delete env s (Candidate t) of
              (err, s1) \<Rightarrow>
                setTrafficSplit
                  (if isNotFoundErr err then logError s1 ''Delete Candidate'' else s1) 100 0)
         else if stable = ''candidate'' then
           (case Delete env s (Baseline t) of
              (err, s1) \<Rightarrow>
                setTrafficSplit
                  (if isNotFoundErr err then logError s1 ''Delete Baseline'' else s1) 0 100)
         else s)
      else s)"

text \<open>\<open>progress\<close>: \<open>After\<close> is the strict order of time.\<close>

definition progress :: "env \<Rightarrow> Experiment \<Rightarrow> bool" where
  "progress env instance =
     (if TerminateExperiment env (Action instance) then False
      else
        (let now = timeNow env;
             traffic = TrafficControl (Spec instance);
             interval = fst (GetIntervalDuration env traffic)
         in now > LastIncrementTime (Status instance) + interval))"

text \<open>
  \<open>detectTargets\<close>, the function of the package: the condition is read without a
  test for \<open>nil\<close>, so an absent one is a panic (\<open>None\<close>).
\<close>

definition detectTargets :: "env \<Rightarrow> state \<Rightarrow> bool option" where
  "detectTargets env s =
     (if ExperimentAbstract env (hist s) = Some True then Some False
      else
        (case GetCondition (Status (inst s)) ExperimentConditionTargetsProvided of
           None \<Rightarrow> None
         | Some cond \<Rightarrow> Some (CondStatus cond \<noteq> ConditionTrue)))"

text \<open>
  \<open>syncKubernetes\<close>, in two parts: up to the detection of the targets, and from
  the progress check on.
\<close>

definition syncKubernetesProgress :: "env \<Rightarrow> state \<Rightarrow> outcome \<times> state" where
  "syncKubernetesProgress env s =
     (case
        (if progress env (inst s) then
           (case callProgressExperiment env s of
              (err, s1) \<Rightarrow>
                (case StatusUpdate env s1 of
                   (uerr, s2) \<Rightarrow>
                     if invalidUpdateErr env uerr then Inl (Return emptyResult None, s2)
                     else if err \<noteq> None then Inl (Return emptyResult None, s2)
                     else Inr (True, s2)))
         else Inr (False, s))
      of
        Inl early \<Rightarrow> early
      | Inr (hasProgressed, s3) \<Rightarrow>
          (case callCheckExperimentCompleted env s3 of
             ((completed, err), s4) \<Rightarrow>
               if completed then
                 (case StatusUpdate env s4 of
                    (uerr, s5) \<Rightarrow>
                      if invalidUpdateErr env uerr then (Return emptyResult None, s5)
                      else (Return emptyResult err, s5))
               else if hasProgressed then
                 (let traffic = TrafficControl (Spec (inst s4));
                      interval = fst (GetIntervalDuration env traffic)
                  in (Return \<lparr>Requeue = False, RequeueAfter = interval\<rparr> None, s4))
               else (Return emptyResult None, s4)))"

definition syncKubernetes :: "env \<Rightarrow> state \<Rightarrow> outcome \<times> state" where
  "syncKubernetes env s =
     (case callCheckOrInitRules env s of
        ((updateStatus, err), s1) \<Rightarrow>
          if err \<noteq> None then
            (if updateStatus then
               (case StatusUpdate env s1 of
                  (uerr, s2) \<Rightarrow>
                    if invalidUpdateErr env uerr then (Return emptyResult None, s2)
                    else (Return emptyResult None, s2))
             else (Return emptyResult None, s1))
          else
            (case detectTargets env s1 of
               None \<Rightarrow> (Panic, s1)
             | Some False \<Rightarrow> syncKubernetesProgress env s1
             | Some True \<Rightarrow>
                 (case callDetectTargets env s1 of
                    ((updateStatus2, err2), s2) \<Rightarrow>
                      if err2 \<noteq> None then
                        (if updateStatus2 then
                           (case StatusUpdate env s2 of
                              (uerr, s3) \<Rightarrow>
                                if invalidUpdateErr env uerr then (Return emptyResult None, s3)
                                else (Return emptyResult None, s3))
                         else (Return emptyResult None, s2))
                      else syncKubernetesProgress env s2)))"

text \<open>
  \<open>finalizeIstio\<close>: the forced termination runs when the condition is there and
  is not true; a failed pass is logged and the finalization goes on.
\<close>

definition finalizeIstio :: "env \<Rightarrow> state \<Rightarrow> outcome \<times> state" where
  "finalizeIstio env s =
     (let completed = GetCondition (Status (inst s)) ExperimentConditionExperimentCompleted in
      case
        (case completed of
           None \<Rightarrow> Inr s
         | Some c \<Rightarrow>
             if CondStatus c \<noteq> ConditionTrue then
               (case syncKubernetes env (s\<lparr>inst := (inst s)\<lparr>Action := ActionOverrideFailure\<rparr>\<rparr>) of
                  (Panic, s1) \<Rightarrow> Inl (Panic, s1)
                | (Return res err, s1) \<Rightarrow>
                    Inr (RemoveExperiment
                          (if err \<noteq> None
                           then logError s1 ''Fail to execute finalize sync process''
                           else s1)))
             else Inr s)
      of
        Inl crash \<Rightarrow> crash
      | Inr s2 \<Rightarrow>
          (case removeFinalizer env s2 Finalizer of
             (err, s3) \<Rightarrow> (Return emptyResult err, s3)))"

section \<open>The reconcile loop\<close>

definition proceed :: "Experiment \<Rightarrow> bool" where
  "proceed instance = (if Phase (Status instance) = PhaseCompleted then False else True)"

definition finalize :: "env \<Rightarrow> state \<Rightarrow> outcome \<times> state" where
  "finalize env s =
     (let apiVersion = TargetService_APIVersion (Spec (inst s)) in
      if apiVersion = KubernetesService then finalizeIstio env s
      else if apiVersion = KnativeServiceV1Alpha1 then callFinalizeKnative env s
      else
        (case removeFinalizer env s Finalizer of
           (err, s1) \<Rightarrow> (Return emptyResult err, s1)))"

definition syncMetrics :: "env \<Rightarrow> state \<Rightarrow> error option \<times> state" where
  "syncMetrics env s =
     (if length (Analysis_SuccessCriteria (Spec (inst s))) = 0 then (None, s)
      else
        (let metricsSycned = GetCondition (Status (inst s)) ExperimentConditionMetricsSynced in
         if (case metricsSycned of None \<Rightarrow> True | Some c \<Rightarrow> CondStatus c \<noteq> ConditionTrue) then
           (case callMetricsRead env s of
              (None, s1) \<Rightarrow> (None, callMarkSyncMetrics env s1)
            | (Some e, s1) \<Rightarrow>
                if \<not> validUpdateErr env e then
                  (case StatusUpdate env (callMarkSyncMetricsError env s1 e) of
                     (uerr, s2) \<Rightarrow>
                       if invalidUpdateErr env uerr then (uerr, s2) else (Some e, s2))
                else (None, callMarkSyncMetrics env s1))
         else (None, s)))"

text \<open>The zero value of the experiment, into which the fetch reads.\<close>

definition emptyExperiment :: Experiment where
  "emptyExperiment =
     \<lparr>Name = [], Namespace = [], Finalizers = [], DeletionTimestamp = None,
      Spec = \<lparr>TargetService_APIVersion = [], TargetService_Name = [], BaselineName = [],
              CandidateName = [],
              TrafficControl = \<lparr>MaxIterations = 0, IntervalText = [], TrafficStepSize = 0\<rparr>,
              Analysis_SuccessCriteria = [], CleanUp = []\<rparr>,
      Status = \<lparr>Phase = [], Conditions = [], TrafficSplit_Baseline = 0,
                TrafficSplit_Candidate = 0, CurrentIteration = 0, LastIncrementTime = 0,
                CreateTimestamp = 0, EndTimestamp = 0\<rparr>,
      Action = [], Metrics = []\<rparr>"

text \<open>
  \<open>Reconcile\<close>, in two parts. The first runs from the fetch to the metrics and
  gives either the early return or the state that reaches the switch on the API
  version; the second is the switch.
\<close>

definition ReconcileDispatch :: "env \<Rightarrow> state \<Rightarrow> outcome \<times> state" where
  "ReconcileDispatch env s =
     (let apiVersion = TargetService_APIVersion (Spec (inst s)) in
      if apiVersion = KubernetesService then syncKubernetes env s
      else if apiVersion = KnativeServiceV1Alpha1 then callSyncKnative env s
      else
        (let s1 = s\<lparr>inst := (inst s)\<lparr>Status :=
                      MarkTargetsError env ''UnsupportedAPIVersion'' ''%s'' [apiVersion]
                        (Status (inst s))\<rparr>\<rparr>
         in (Return emptyResult None, snd (StatusUpdate env s1))))"

definition ReconcileInit :: "env \<Rightarrow> state \<Rightarrow> (outcome \<times> state) + state" where
  "ReconcileInit env s =
     (case
        (if CreateTimestamp (Status (inst s)) = 0 then
           (case StatusUpdate env (s\<lparr>inst := (inst s)\<lparr>Status := StatusInit env (Status (inst s))\<rparr>\<rparr>) of
              (err, s1) \<Rightarrow>
                if invalidUpdateErr env err then Inl (Return emptyResult None, s1) else Inr s1)
         else Inr s)
      of
        Inl early \<Rightarrow> Inl early
      | Inr s2 \<Rightarrow>
          (case syncMetrics env s2 of
             (err, s3) \<Rightarrow> if err \<noteq> None then Inl (Return emptyResult None, s3) else Inr s3))"

definition ReconcilePrefix :: "env \<Rightarrow> request \<Rightarrow> (outcome \<times> state) + state" where
  "ReconcilePrefix env request =
     (case clientGet env [] request of
        Inl err \<Rightarrow>
          (if IsNotFound err
           then Inl (Return emptyResult None, \<lparr>inst = emptyExperiment, hist = [EvGet request]\<rparr>)
           else Inl (Return emptyResult (Some err), \<lparr>inst = emptyExperiment, hist = [EvGet request]\<rparr>))
      | Inr instance \<Rightarrow>
          (case addFinalizerIfAbsent env
                  (RegisterExperiment \<lparr>inst = instance, hist = [EvGet request]\<rparr>) Finalizer of
             (err, s1) \<Rightarrow>
               if invalidUpdateErr env err then Inl (Return emptyResult err, s1)
               else if DeletionTimestamp (inst s1) \<noteq> None then Inl (finalize env s1)
               else if \<not> proceed (inst s1) then Inl (Return emptyResult None, s1)
               else ReconcileInit env s1))"

definition Reconcile :: "env \<Rightarrow> request \<Rightarrow> outcome \<times> state" where
  "Reconcile env request =
     (case ReconcilePrefix env request of
        Inl early \<Rightarrow> early
      | Inr s \<Rightarrow> ReconcileDispatch env s)"

section \<open>The event filter of experiment updates\<close>

text \<open>
  The function given as \<open>UpdateFunc\<close> to the watch of experiments. The watch
  lists the generation predicate of the controller library before it, and an
  update wakes the reconciler when both predicates pass; the answer of the library
  predicate is a parameter.
\<close>

definition UpdateFunc :: "Experiment \<Rightarrow> Experiment \<Rightarrow> bool" where
  "UpdateFunc oldInstance newInstance =
     (if length (Finalizers oldInstance) = 0 \<and> length (Finalizers newInstance) > 0 then False
      else if length (Action oldInstance) > 0 \<and> length (Action newInstance) = 0 then False
      else if length (Metrics oldInstance) = 0 \<and> length (Metrics newInstance) > 0 then False
      else True)"

definition experimentUpdateAdmitted ::
    "(Experiment \<Rightarrow> Experiment \<Rightarrow> bool) \<Rightarrow> Experiment \<Rightarrow> Experiment \<Rightarrow> bool" where
  "experimentUpdateAdmitted generationChanged oldInstance newInstance =
     (generationChanged oldInstance newInstance \<and> UpdateFunc oldInstance newInstance)"

section \<open>A running example\<close>

text \<open>
  An experiment of the Kubernetes family in its first iteration, which holds the
  finalizer token, and a cluster in which every call succeeds and the other parts
  of the controller leave the instance as it is, but for the targets error, which
  puts a false targets condition in front. The terminating actions of the example
  are the four the specification names; the clock stands at 200 and the interval
  is 10.
\<close>

definition exampleExperiment :: Experiment where
  "exampleExperiment =
     \<lparr>Name = ''reviews-rollout'', Namespace = ''bookinfo'', Finalizers = [Finalizer],
      DeletionTimestamp = None,
      Spec = \<lparr>TargetService_APIVersion = KubernetesService, TargetService_Name = ''reviews'',
              BaselineName = ''reviews-v2'', CandidateName = ''reviews-v3'',
              TrafficControl = \<lparr>MaxIterations = 3, IntervalText = ''10s'', TrafficStepSize = 25\<rparr>,
              Analysis_SuccessCriteria = [], CleanUp = CleanUpDelete\<rparr>,
      Status = \<lparr>Phase = ''Progressing'',
                Conditions =
                  [(ExperimentConditionTargetsProvided,
                      \<lparr>CondStatus = ConditionTrue, Reason = [], Message = []\<rparr>),
                   (ExperimentConditionExperimentCompleted,
                      \<lparr>CondStatus = ConditionFalse, Reason = [], Message = []\<rparr>)],
                TrafficSplit_Baseline = 75, TrafficSplit_Candidate = 25, CurrentIteration = 1,
                LastIncrementTime = 100, CreateTimestamp = 50, EndTimestamp = 0\<rparr>,
      Action = [], Metrics = [''latency'']\<rparr>"

definition exampleRequest :: request where
  "exampleRequest = \<lparr>ReqName = ''reviews-rollout'', ReqNamespace = ''bookinfo''\<rparr>"

definition exampleTargets :: targets where
  "exampleTargets =
     \<lparr>TargetService = ''reviews'', Baseline = ''reviews-v2'', Candidate = ''reviews-v3''\<rparr>"

definition exampleEnv :: "Experiment \<Rightarrow> env" where
  "exampleEnv fetched =
     \<lparr>clientGet = (\<lambda>h r. Inr fetched),
      clientUpdate = (\<lambda>h e. None),
      clientStatusUpdate = (\<lambda>h e. None),
      clientDelete = (\<lambda>h obj. None),
      timeNow = 200,
      validUpdateErr = (\<lambda>e. False),
      TerminateExperiment =
        (\<lambda>a. a \<in> set [''successWithBaseline'', ''successWithCandidate'', ''abort'',
                       ActionOverrideFailure]),
      GetIntervalDuration = (\<lambda>t. (10, None)),
      GetStableTarget = (\<lambda>h e. ''baseline''),
      ExperimentAbstract = (\<lambda>h. None),
      StatusInit = (\<lambda>st. st),
      MarkTargetsError =
        (\<lambda>reason format args st.
           st\<lparr>Conditions :=
                (ExperimentConditionTargetsProvided,
                   \<lparr>CondStatus = ConditionFalse, Reason = reason, Message = concat args\<rparr>)
                # Conditions st\<rparr>),
      metricsRead = (\<lambda>h e. (e, None)),
      MarkSyncMetricsError = (\<lambda>h e err. e),
      MarkSyncMetrics = (\<lambda>h e. e),
      checkOrInitRules = (\<lambda>h e. (e, False, None)),
      detectTargetsOf = (\<lambda>h e. (e, False, None)),
      progressExperiment = (\<lambda>h e. (e, None)),
      checkExperimentCompleted = (\<lambda>h e. (e, False, None)),
      syncKnative = (\<lambda>h e. (e, Return emptyResult None)),
      finalizeKnative = (\<lambda>h e. (e, Return emptyResult None))\<rparr>"

text \<open>Variations of the example that the theorems below are tried on.\<close>

definition completedWithoutFinalizer :: Experiment where
  "completedWithoutFinalizer =
     exampleExperiment\<lparr>Finalizers := [],
       Status := (Status exampleExperiment)\<lparr>Phase := PhaseCompleted\<rparr>\<rparr>"

definition completedWithFinalizer :: Experiment where
  "completedWithFinalizer =
     exampleExperiment\<lparr>Status := (Status exampleExperiment)\<lparr>Phase := PhaseCompleted\<rparr>\<rparr>"

definition deletedRunning :: Experiment where
  "deletedRunning = exampleExperiment\<lparr>DeletionTimestamp := Some 150\<rparr>"

definition deletedUninitialized :: Experiment where
  "deletedUninitialized =
     exampleExperiment\<lparr>DeletionTimestamp := Some 150, Status := Status emptyExperiment\<rparr>"

definition unsupportedExperiment :: Experiment where
  "unsupportedExperiment =
     exampleExperiment\<lparr>Spec := (Spec exampleExperiment)\<lparr>TargetService_APIVersion := ''v2''\<rparr>\<rparr>"

definition unsupportedDeleted :: Experiment where
  "unsupportedDeleted = unsupportedExperiment\<lparr>DeletionTimestamp := Some 150\<rparr>"

definition keptExperiment :: Experiment where
  "keptExperiment = exampleExperiment\<lparr>Spec := (Spec exampleExperiment)\<lparr>CleanUp := ''none''\<rparr>\<rparr>"

definition boundaryExperiment :: Experiment where
  "boundaryExperiment =
     exampleExperiment\<lparr>Status := (Status exampleExperiment)\<lparr>LastIncrementTime := 190\<rparr>\<rparr>"

definition filterOld :: Experiment where
  "filterOld = exampleExperiment\<lparr>Finalizers := []\<rparr>"

definition filterNew :: Experiment where
  "filterNew =
     exampleExperiment\<lparr>Spec := (Spec exampleExperiment)\<lparr>CandidateName := ''reviews-v4''\<rparr>\<rparr>"

definition notFoundError :: error where
  "notFoundError = Error True ''experiments.iter8.tools not found''"

text \<open>
  The claim on the event filter in its own words: an update whose only change is
  the first finalizer, the cleared action, or the first metrics.
\<close>

definition specOnlyFinalizerAdded :: "Experiment \<Rightarrow> Experiment \<Rightarrow> bool" where
  "specOnlyFinalizerAdded oldInstance newInstance =
     (Finalizers oldInstance = [] \<and> length (Finalizers newInstance) = 1 \<and>
      newInstance = oldInstance\<lparr>Finalizers := Finalizers newInstance\<rparr>)"

definition specOnlyActionCleared :: "Experiment \<Rightarrow> Experiment \<Rightarrow> bool" where
  "specOnlyActionCleared oldInstance newInstance =
     (Action oldInstance \<noteq> [] \<and> newInstance = oldInstance\<lparr>Action := []\<rparr>)"

definition specOnlyMetricsLoaded :: "Experiment \<Rightarrow> Experiment \<Rightarrow> bool" where
  "specOnlyMetricsLoaded oldInstance newInstance =
     (Metrics oldInstance = [] \<and> Metrics newInstance \<noteq> [] \<and>
      newInstance = oldInstance\<lparr>Metrics := Metrics newInstance\<rparr>)"

definition specUpdateAdmitted :: "Experiment \<Rightarrow> Experiment \<Rightarrow> bool" where
  "specUpdateAdmitted oldInstance newInstance =
     (\<not> (specOnlyFinalizerAdded oldInstance newInstance \<or>
         specOnlyActionCleared oldInstance newInstance \<or>
         specOnlyMetricsLoaded oldInstance newInstance))"

section \<open>Theorems\<close>

lemma finalizerPresent_iff: "finalizerPresent fs fName \<longleftrightarrow> fName \<in> set fs"
  by (induction fs) auto

lemma withoutFinalizer_filter: "withoutFinalizer fs fName = filter (\<lambda>f. f \<noteq> fName) fs"
  by (induction fs) auto

lemma StatusUpdate_state:
  "snd (StatusUpdate env s) = s\<lparr>hist := hist s @ [EvStatusUpdate (inst s)]\<rparr>"
  by (simp add: StatusUpdate_def)

text \<open>A pass of \<open>syncKubernetes\<close> only appends to the history, and begins with the rules.\<close>

lemma syncKubernetesProgress_extends:
  "\<exists>ev. hist (snd (syncKubernetesProgress env s)) = hist s @ ev"
  by (auto simp: syncKubernetesProgress_def callProgressExperiment_def StatusUpdate_def
      callCheckExperimentCompleted_def Let_def split: prod.splits)

lemma syncKubernetesProgress_keeps:
  "\<exists>rest. hist (snd (syncKubernetesProgress env \<lparr>inst = i, hist = h @ e # t\<rparr>)) = h @ e # rest"
  using syncKubernetesProgress_extends [of env "\<lparr>inst = i, hist = h @ e # t\<rparr>"] by auto

lemma syncKubernetes_first_event:
  "\<exists>rest. hist (snd (syncKubernetes env s)) = hist s @ EvCheckOrInitRules (inst s) # rest"
  by (auto simp: syncKubernetes_def callCheckOrInitRules_def callDetectTargets_def
      StatusUpdate_def syncKubernetesProgress_keeps
      split: prod.splits option.splits bool.splits)

text \<open>The progression is called on an instance only when the progress check passes on it.\<close>

lemma syncKubernetesProgress_calls:
  "EvProgressExperiment i \<in> set (hist (snd (syncKubernetesProgress env s))) \<Longrightarrow>
   EvProgressExperiment i \<in> set (hist s) \<or> progress env i"
  by (auto simp: syncKubernetesProgress_def callProgressExperiment_def StatusUpdate_def
      callCheckExperimentCompleted_def Let_def split: prod.splits if_splits)

lemma syncKubernetes_calls:
  "EvProgressExperiment i \<in> set (hist (snd (syncKubernetes env s))) \<Longrightarrow>
   EvProgressExperiment i \<in> set (hist s) \<or> progress env i"
  by (auto simp: syncKubernetes_def callCheckOrInitRules_def callDetectTargets_def
      StatusUpdate_def split: prod.splits option.splits bool.splits if_splits
      dest!: syncKubernetesProgress_calls)

subsection \<open>The gate on completed experiments\<close>

text \<open>
  C1, as the code has it. A reconcile of an experiment that has no deletion
  timestamp and whose phase is Completed fetches it, registers it in the cache
  and, before the gate is reached, makes sure of the finalizer token: when the
  token is there nothing else happens; when it is absent the token is appended
  and the experiment is written once. The gate then returns with no requeue. No
  status update, metrics sync, routing change or analytics call takes place, and
  the error returned is nil unless the write of the token failed with an error
  that is not a benign one.
\<close>

theorem Reconcile_completed:
  assumes "clientGet env [] request = Inr E"
    and "DeletionTimestamp E = None"
    and "Phase (Status E) = PhaseCompleted"
  shows "Reconcile env request =
     (if Finalizer \<in> set (Finalizers E)
      then (Return emptyResult None, \<lparr>inst = E, hist = [EvGet request, EvRegisterExperiment E]\<rparr>)
      else
        (let E' = E\<lparr>Finalizers := Finalizers E @ [Finalizer]\<rparr>;
             err = clientUpdate env [EvGet request, EvRegisterExperiment E] E'
         in (Return emptyResult (if invalidUpdateErr env err then err else None),
             \<lparr>inst = E', hist = [EvGet request, EvRegisterExperiment E, EvUpdate E']\<rparr>)))"
  using assms
  by (simp add: Reconcile_def ReconcilePrefix_def RegisterExperiment_def addFinalizerIfAbsent_def
      finalizerPresent_iff Update_def proceed_def Let_def)

text \<open>The completed example that holds the token: fetched, registered, and no more.\<close>

theorem Reconcile_completed_witness:
  "Reconcile (exampleEnv completedWithFinalizer) exampleRequest =
     (Return emptyResult None,
      \<lparr>inst = completedWithFinalizer,
       hist = [EvGet exampleRequest, EvRegisterExperiment completedWithFinalizer]\<rparr>)"
proof -
  have h1: "clientGet (exampleEnv completedWithFinalizer) [] exampleRequest
      = Inr completedWithFinalizer"
    by (simp add: exampleEnv_def)
  have h2: "DeletionTimestamp completedWithFinalizer = None"
    by (simp add: completedWithFinalizer_def exampleExperiment_def)
  have h3: "Phase (Status completedWithFinalizer) = PhaseCompleted"
    by (simp add: completedWithFinalizer_def)
  have h4: "Finalizer \<in> set (Finalizers completedWithFinalizer)"
    by (simp add: completedWithFinalizer_def exampleExperiment_def)
  show ?thesis
    using Reconcile_completed [OF h1 h2 h3] h4 by simp
qed

text \<open>
  The completed example without the token: the reconcile writes the experiment to
  the cluster before the gate stops it.
\<close>

theorem Reconcile_completed_counterexample:
  "clientGet (exampleEnv completedWithoutFinalizer) [] exampleRequest
     = Inr completedWithoutFinalizer \<and>
   DeletionTimestamp completedWithoutFinalizer = None \<and>
   Phase (Status completedWithoutFinalizer) = PhaseCompleted \<and>
   hist (snd (Reconcile (exampleEnv completedWithoutFinalizer) exampleRequest)) =
     [EvGet exampleRequest, EvRegisterExperiment completedWithoutFinalizer,
      EvUpdate (completedWithoutFinalizer\<lparr>Finalizers := [Finalizer]\<rparr>)]"
  by (simp add: Reconcile_def ReconcilePrefix_def RegisterExperiment_def addFinalizerIfAbsent_def
      Update_def proceed_def Let_def exampleEnv_def completedWithoutFinalizer_def
      exampleExperiment_def invalidUpdateErr_def)

subsection \<open>Finalization in the Kubernetes family\<close>

text \<open>
  C2, as the code has it. For an experiment of the Kubernetes family whose
  ExperimentCompleted condition is present and is not True, finalization sets the
  action to the failure override and runs one pass of \<open>syncKubernetes\<close> on it,
  which begins with the routing rules; when that pass has returned, a failure of
  it is logged, the experiment is removed from the cache, and only then the
  finalizer token is taken off and the experiment written: the write is the last
  event, and its error is the error of the finalization.
\<close>

theorem finalize_forced_termination:
  assumes "TargetService_APIVersion (Spec (inst s)) = KubernetesService"
    and "GetCondition (Status (inst s)) ExperimentConditionExperimentCompleted = Some c"
    and "CondStatus c \<noteq> ConditionTrue"
    and "syncKubernetes env (s\<lparr>inst := (inst s)\<lparr>Action := ActionOverrideFailure\<rparr>\<rparr>)
           = (Return res err, s1)"
  shows "(\<exists>rest. hist s1 =
            hist s @ EvCheckOrInitRules ((inst s)\<lparr>Action := ActionOverrideFailure\<rparr>) # rest) \<and>
     finalize env s =
       (let failed = (if err \<noteq> None
                      then [EvLogError ''Fail to execute finalize sync process''] else []);
            h = hist s1 @ failed @ [EvRemoveExperiment (inst s1)];
            i' = (inst s1)\<lparr>Finalizers := filter (\<lambda>f. f \<noteq> Finalizer) (Finalizers (inst s1))\<rparr>
        in (Return emptyResult (clientUpdate env h i'),
            s1\<lparr>inst := i', hist := h @ [EvUpdate i']\<rparr>))"
proof -
  let ?forced = "s\<lparr>inst := (inst s)\<lparr>Action := ActionOverrideFailure\<rparr>\<rparr>"
  have "\<exists>rest. hist (snd (syncKubernetes env ?forced))
      = hist ?forced @ EvCheckOrInitRules (inst ?forced) # rest"
    by (rule syncKubernetes_first_event)
  then have first: "\<exists>rest. hist s1 =
      hist s @ EvCheckOrInitRules ((inst s)\<lparr>Action := ActionOverrideFailure\<rparr>) # rest"
    using assms(4) by simp
  have run: "finalize env s =
       (let failed = (if err \<noteq> None
                      then [EvLogError ''Fail to execute finalize sync process''] else []);
            h = hist s1 @ failed @ [EvRemoveExperiment (inst s1)];
            i' = (inst s1)\<lparr>Finalizers := filter (\<lambda>f. f \<noteq> Finalizer) (Finalizers (inst s1))\<rparr>
        in (Return emptyResult (clientUpdate env h i'),
            s1\<lparr>inst := i', hist := h @ [EvUpdate i']\<rparr>))"
    using assms
    by (simp add: finalize_def finalizeIstio_def removeFinalizer_def Update_def
        RemoveExperiment_def logError_def withoutFinalizer_filter Let_def)
  from first run show ?thesis by simp
qed

text \<open>
  The running example, deleted: the pass sees the forced action and makes no
  progress, the cache entry goes, and the token goes last.
\<close>

theorem finalize_forced_termination_witness:
  "finalize (exampleEnv deletedRunning) \<lparr>inst = deletedRunning, hist = []\<rparr> =
     (Return emptyResult None,
      \<lparr>inst = deletedRunning\<lparr>Action := ActionOverrideFailure, Finalizers := []\<rparr>,
       hist = [EvCheckOrInitRules (deletedRunning\<lparr>Action := ActionOverrideFailure\<rparr>),
               EvCheckExperimentCompleted (deletedRunning\<lparr>Action := ActionOverrideFailure\<rparr>),
               EvRemoveExperiment (deletedRunning\<lparr>Action := ActionOverrideFailure\<rparr>),
               EvUpdate (deletedRunning\<lparr>Action := ActionOverrideFailure, Finalizers := []\<rparr>)]\<rparr>)"
proof -
  let ?env = "exampleEnv deletedRunning"
  let ?s = "\<lparr>inst = deletedRunning, hist = []\<rparr>"
  let ?forced = "deletedRunning\<lparr>Action := ActionOverrideFailure\<rparr>"
  let ?s1 = "\<lparr>inst = ?forced,
              hist = [EvCheckOrInitRules ?forced, EvCheckExperimentCompleted ?forced]\<rparr>"
  have h1: "TargetService_APIVersion (Spec (inst ?s)) = KubernetesService"
    by (simp add: deletedRunning_def exampleExperiment_def)
  have h2: "GetCondition (Status (inst ?s)) ExperimentConditionExperimentCompleted
      = Some \<lparr>CondStatus = ConditionFalse, Reason = [], Message = []\<rparr>"
    by (simp add: GetCondition_def deletedRunning_def exampleExperiment_def)
  have h3: "CondStatus \<lparr>CondStatus = ConditionFalse, Reason = [], Message = []\<rparr> \<noteq> ConditionTrue"
    by simp
  have h4: "syncKubernetes ?env (?s\<lparr>inst := (inst ?s)\<lparr>Action := ActionOverrideFailure\<rparr>\<rparr>)
      = (Return emptyResult None, ?s1)"
    by (simp add: syncKubernetes_def syncKubernetesProgress_def callCheckOrInitRules_def
        callDetectTargets_def callProgressExperiment_def callCheckExperimentCompleted_def
        StatusUpdate_def detectTargets_def GetCondition_def progress_def invalidUpdateErr_def
        exampleEnv_def deletedRunning_def exampleExperiment_def Let_def)
  show ?thesis
    using finalize_forced_termination [OF h1 h2 h3 h4, THEN conjunct2]
    by (simp add: Let_def deletedRunning_def exampleExperiment_def exampleEnv_def
        Finalizer_def)
qed

text \<open>
  An experiment of the Kubernetes family that holds the token and is deleted
  before its status was initialised: it has no ExperimentCompleted condition, so
  the condition is not True, and the reconcile takes the token off at once. The
  action is left as it was, no pass runs, and the experiment stays in the cache.
\<close>

theorem finalize_forced_termination_counterexample:
  "DeletionTimestamp deletedUninitialized \<noteq> None \<and>
   TargetService_APIVersion (Spec deletedUninitialized) = KubernetesService \<and>
   GetCondition (Status deletedUninitialized) ExperimentConditionExperimentCompleted = None \<and>
   Reconcile (exampleEnv deletedUninitialized) exampleRequest =
     (Return emptyResult None,
      \<lparr>inst = deletedUninitialized\<lparr>Finalizers := []\<rparr>,
       hist = [EvGet exampleRequest, EvRegisterExperiment deletedUninitialized,
               EvUpdate (deletedUninitialized\<lparr>Finalizers := []\<rparr>)]\<rparr>)"
  by (simp add: Reconcile_def ReconcilePrefix_def RegisterExperiment_def addFinalizerIfAbsent_def
      finalize_def finalizeIstio_def removeFinalizer_def Update_def GetCondition_def
      invalidUpdateErr_def exampleEnv_def deletedUninitialized_def exampleExperiment_def
      emptyExperiment_def KubernetesService_def Let_def)

subsection \<open>The progress check\<close>

text \<open>
  C3, as the code has it. The progress check fails whenever the action of the
  experiment is a terminating one, and otherwise passes exactly when the clock is
  strictly after the last increment time plus the interval. A pass of
  \<open>syncKubernetes\<close> calls the progression, which holds the analytics call, only on
  an instance on which the check passes: never under a terminating action, and
  never before the interval has gone by.
\<close>

theorem progress_check:
  "(progress env instance \<longleftrightarrow>
      \<not> TerminateExperiment env (Action instance) \<and>
      timeNow env > LastIncrementTime (Status instance)
                     + fst (GetIntervalDuration env (TrafficControl (Spec instance)))) \<and>
   (\<forall>i. EvProgressExperiment i \<in> set (hist (snd (syncKubernetes env s))) \<longrightarrow>
        EvProgressExperiment i \<in> set (hist s) \<or> progress env i)"
  using syncKubernetes_calls [of _ env s] by (auto simp: progress_def Let_def)

text \<open>The running example is due: the pass calls the progression, and the check holds.\<close>

theorem progress_check_witness:
  "EvProgressExperiment exampleExperiment
     \<in> set (hist (snd (syncKubernetes (exampleEnv exampleExperiment)
                         \<lparr>inst = exampleExperiment, hist = []\<rparr>))) \<and>
   progress (exampleEnv exampleExperiment) exampleExperiment"
proof -
  have h: "EvProgressExperiment exampleExperiment
      \<in> set (hist (snd (syncKubernetes (exampleEnv exampleExperiment)
                         \<lparr>inst = exampleExperiment, hist = []\<rparr>)))"
    by (simp add: syncKubernetes_def syncKubernetesProgress_def callCheckOrInitRules_def
        callDetectTargets_def callProgressExperiment_def callCheckExperimentCompleted_def
        StatusUpdate_def detectTargets_def GetCondition_def progress_def invalidUpdateErr_def
        exampleEnv_def exampleExperiment_def Let_def ActionOverrideFailure_def)
  have "progress (exampleEnv exampleExperiment) exampleExperiment"
    using progress_check [of "exampleEnv exampleExperiment" exampleExperiment
        "\<lparr>inst = exampleExperiment, hist = []\<rparr>", THEN conjunct2] h
    by auto
  with h show ?thesis by simp
qed

text \<open>
  At the boundary, where the clock equals the last increment time plus the
  interval (190 + 10 = 200) and the action is empty, the check fails.
\<close>

theorem progress_check_counterexample:
  "\<not> TerminateExperiment (exampleEnv boundaryExperiment) (Action boundaryExperiment) \<and>
   timeNow (exampleEnv boundaryExperiment)
     \<ge> LastIncrementTime (Status boundaryExperiment)
        + fst (GetIntervalDuration (exampleEnv boundaryExperiment)
                 (TrafficControl (Spec boundaryExperiment))) \<and>
   \<not> progress (exampleEnv boundaryExperiment) boundaryExperiment"
  by (simp add: progress_def exampleEnv_def boundaryExperiment_def exampleExperiment_def
      ActionOverrideFailure_def Let_def)

subsection \<open>The filter of experiment updates\<close>

text \<open>
  C4, as the code has it. An update of an experiment is admitted exactly when the
  generation predicate passes and none of these holds: the finalizers go from
  none to some, the action goes from set to empty, the metrics go from none to
  some; whatever else changed in the same update plays no part. So an update
  whose only change is the first finalizer, the cleared action or the first
  metrics is rejected.
\<close>

theorem update_filter:
  "(experimentUpdateAdmitted generationChanged oldInstance newInstance \<longleftrightarrow>
      generationChanged oldInstance newInstance \<and>
      \<not> (Finalizers oldInstance = [] \<and> Finalizers newInstance \<noteq> []) \<and>
      \<not> (Action oldInstance \<noteq> [] \<and> Action newInstance = []) \<and>
      \<not> (Metrics oldInstance = [] \<and> Metrics newInstance \<noteq> [])) \<and>
   (\<not> specUpdateAdmitted oldInstance newInstance \<longrightarrow>
      \<not> experimentUpdateAdmitted generationChanged oldInstance newInstance)"
proof -
  have a: "specOnlyFinalizerAdded oldInstance newInstance \<Longrightarrow>
      Finalizers oldInstance = [] \<and> Finalizers newInstance \<noteq> []"
    by (auto simp: specOnlyFinalizerAdded_def)
  have "newInstance = oldInstance\<lparr>Action := []\<rparr> \<Longrightarrow> Action newInstance = []"
    by simp
  then have b: "specOnlyActionCleared oldInstance newInstance \<Longrightarrow>
      Action oldInstance \<noteq> [] \<and> Action newInstance = []"
    by (simp add: specOnlyActionCleared_def)
  have c: "specOnlyMetricsLoaded oldInstance newInstance \<Longrightarrow>
      Metrics oldInstance = [] \<and> Metrics newInstance \<noteq> []"
    by (auto simp: specOnlyMetricsLoaded_def)
  show ?thesis
    using a b c
    by (auto simp: experimentUpdateAdmitted_def UpdateFunc_def specUpdateAdmitted_def)
qed

text \<open>The controller clears a pause and changes nothing else: rejected.\<close>

theorem update_filter_witness:
  "\<not> specUpdateAdmitted (exampleExperiment\<lparr>Action := ''pause''\<rparr>)
       (exampleExperiment\<lparr>Action := []\<rparr>) \<and>
   \<not> experimentUpdateAdmitted (\<lambda>old new. True)
       (exampleExperiment\<lparr>Action := ''pause''\<rparr>) (exampleExperiment\<lparr>Action := []\<rparr>)"
proof -
  have h: "\<not> specUpdateAdmitted (exampleExperiment\<lparr>Action := ''pause''\<rparr>)
      (exampleExperiment\<lparr>Action := []\<rparr>)"
    by (simp add: specUpdateAdmitted_def specOnlyActionCleared_def)
  from update_filter [of "\<lambda>old new. True" "exampleExperiment\<lparr>Action := ''pause''\<rparr>"
      "exampleExperiment\<lparr>Action := []\<rparr>", THEN conjunct2] h
  show ?thesis by blast
qed

text \<open>
  An update that brings the first finalizer and a new candidate at once is none of
  the three only-changes, and is rejected all the same.
\<close>

theorem update_filter_counterexample:
  "specUpdateAdmitted filterOld filterNew \<and>
   \<not> experimentUpdateAdmitted (\<lambda>old new. True) filterOld filterNew"
  by (simp add: specUpdateAdmitted_def specOnlyFinalizerAdded_def specOnlyActionCleared_def
      specOnlyMetricsLoaded_def experimentUpdateAdmitted_def UpdateFunc_def
      filterOld_def filterNew_def exampleExperiment_def)

subsection \<open>Cleanup\<close>

text \<open>
  With the delete policy and the baseline as the stable target, \<open>Cleanup\<close> deletes
  the candidate and nothing else, and routes all traffic to the baseline; the
  only thing that can follow the delete is the error line in the log.
\<close>

lemma Cleanup_delete_effects:
  assumes "CleanUp (Spec (inst s)) = CleanUpDelete"
    and "GetStableTarget env (hist s) (inst s) = ''baseline''"
  shows "\<exists>logged. hist (Cleanup env t s) = hist s @ EvDelete (Candidate t) # logged
            \<and> set logged \<subseteq> {EvLogError ''Delete Candidate''}"
    and "TrafficSplit_Baseline (Status (inst (Cleanup env t s))) = 100"
    and "TrafficSplit_Candidate (Status (inst (Cleanup env t s))) = 0"
  using assms
  by (auto simp: Cleanup_def Delete_def logError_def setTrafficSplit_def Let_def)

text \<open>
  C5, at the input where the code departs from it. The candidate is already gone
  and the delete answers not-found: \<open>Cleanup\<close> reports it with an error line in
  the log. When the delete fails for another reason, nothing is reported. In both
  runs the traffic goes to the baseline.
\<close>

theorem Cleanup_not_found_logged:
  "Cleanup ((exampleEnv exampleExperiment)\<lparr>clientDelete := \<lambda>h obj. Some notFoundError\<rparr>)
       exampleTargets \<lparr>inst = exampleExperiment, hist = []\<rparr> =
     \<lparr>inst = exampleExperiment\<lparr>Status := (Status exampleExperiment)
               \<lparr>TrafficSplit_Baseline := 100, TrafficSplit_Candidate := 0\<rparr>\<rparr>,
      hist = [EvDelete ''reviews-v3'', EvLogError ''Delete Candidate'']\<rparr> \<and>
   Cleanup ((exampleEnv exampleExperiment)
              \<lparr>clientDelete := \<lambda>h obj. Some (Error False ''connection refused'')\<rparr>)
       exampleTargets \<lparr>inst = exampleExperiment, hist = []\<rparr> =
     \<lparr>inst = exampleExperiment\<lparr>Status := (Status exampleExperiment)
               \<lparr>TrafficSplit_Baseline := 100, TrafficSplit_Candidate := 0\<rparr>\<rparr>,
      hist = [EvDelete ''reviews-v3'']\<rparr>"
  by (simp add: Cleanup_def Delete_def logError_def setTrafficSplit_def isNotFoundErr_def
      notFoundError_def exampleEnv_def exampleTargets_def exampleExperiment_def Let_def)

text \<open>
  C9. With a cleanup policy other than delete, \<open>Cleanup\<close> deletes nothing and
  leaves the experiment, its status and both sides of the traffic split as they
  were: the state that comes out is the state that went in.
\<close>

theorem Cleanup_other_policy:
  "CleanUp (Spec (inst s)) \<noteq> CleanUpDelete \<Longrightarrow> Cleanup env t s = s"
  by (simp add: Cleanup_def)

theorem Cleanup_other_policy_witness:
  "CleanUp (Spec keptExperiment) \<noteq> CleanUpDelete \<and>
   Cleanup (exampleEnv keptExperiment) exampleTargets \<lparr>inst = keptExperiment, hist = []\<rparr>
     = \<lparr>inst = keptExperiment, hist = []\<rparr>"
proof -
  have h: "CleanUp (Spec (inst \<lparr>inst = keptExperiment, hist = []\<rparr>)) \<noteq> CleanUpDelete"
    by (simp add: keptExperiment_def CleanUpDelete_def)
  show ?thesis
    using h Cleanup_other_policy [OF h, of "exampleEnv keptExperiment" exampleTargets]
    by simp
qed

subsection \<open>An API version that is not supported\<close>

text \<open>A reconcile reaches the switch only with a fetched, live, uncompleted experiment.\<close>

lemma ReconcilePrefix_reaches_dispatch:
  assumes "ReconcilePrefix env request = Inr s"
  shows "\<exists>E. clientGet env [] request = Inr E \<and> DeletionTimestamp E = None \<and>
             Phase (Status E) \<noteq> PhaseCompleted"
  using assms
  by (auto simp: ReconcilePrefix_def addFinalizerIfAbsent_def Update_def RegisterExperiment_def
      proceed_def split: sum.splits if_splits prod.splits)

text \<open>
  C6, as the code has it. When a reconcile reaches the switch on the API version
  (the fetch succeeded, the finalizer step did not fail, the experiment is neither
  deleted nor completed, and the status initialisation and the metrics sync did
  not stop it) and the version is neither the Kubernetes nor the Knative one, it
  marks the targets error with the reason UnsupportedAPIVersion and the version
  as its message, writes the status once, whatever that write answers, and
  returns with no requeue and no error.
\<close>

theorem Reconcile_unsupported:
  assumes "ReconcilePrefix env request = Inr s"
    and "TargetService_APIVersion (Spec (inst s)) \<noteq> KubernetesService"
    and "TargetService_APIVersion (Spec (inst s)) \<noteq> KnativeServiceV1Alpha1"
  shows "Reconcile env request =
     (let i' = (inst s)\<lparr>Status :=
                  MarkTargetsError env ''UnsupportedAPIVersion'' ''%s''
                    [TargetService_APIVersion (Spec (inst s))] (Status (inst s))\<rparr>
      in (Return emptyResult None, s\<lparr>inst := i', hist := hist s @ [EvStatusUpdate i']\<rparr>))"
  using assms
  by (simp add: Reconcile_def ReconcileDispatch_def StatusUpdate_def Let_def)

text \<open>The running example with the version v2: the condition is set and written.\<close>

theorem Reconcile_unsupported_witness:
  "fst (Reconcile (exampleEnv unsupportedExperiment) exampleRequest) = Return emptyResult None \<and>
   GetCondition (Status (inst (snd (Reconcile (exampleEnv unsupportedExperiment) exampleRequest))))
       ExperimentConditionTargetsProvided
     = Some \<lparr>CondStatus = ConditionFalse, Reason = ''UnsupportedAPIVersion'', Message = ''v2''\<rparr> \<and>
   hist (snd (Reconcile (exampleEnv unsupportedExperiment) exampleRequest)) =
     [EvGet exampleRequest, EvRegisterExperiment unsupportedExperiment,
      EvStatusUpdate (inst (snd (Reconcile (exampleEnv unsupportedExperiment) exampleRequest)))]"
proof -
  let ?s = "\<lparr>inst = unsupportedExperiment,
             hist = [EvGet exampleRequest, EvRegisterExperiment unsupportedExperiment]\<rparr>"
  have h1: "ReconcilePrefix (exampleEnv unsupportedExperiment) exampleRequest = Inr ?s"
    by (simp add: ReconcilePrefix_def ReconcileInit_def RegisterExperiment_def
        addFinalizerIfAbsent_def proceed_def syncMetrics_def invalidUpdateErr_def
        exampleEnv_def unsupportedExperiment_def exampleExperiment_def PhaseCompleted_def)
  have h2: "TargetService_APIVersion (Spec (inst ?s)) \<noteq> KubernetesService"
    by (simp add: unsupportedExperiment_def KubernetesService_def)
  have h3: "TargetService_APIVersion (Spec (inst ?s)) \<noteq> KnativeServiceV1Alpha1"
    by (simp add: unsupportedExperiment_def KnativeServiceV1Alpha1_def)
  show ?thesis
    using Reconcile_unsupported [OF h1 h2 h3]
    by (simp add: Let_def exampleEnv_def GetCondition_def unsupportedExperiment_def)
qed

text \<open>
  The same experiment once it is deleted: the reconcile finalizes it, and neither
  sets the condition nor writes the status.
\<close>

theorem Reconcile_unsupported_counterexample:
  "TargetService_APIVersion (Spec unsupportedDeleted) \<noteq> KubernetesService \<and>
   TargetService_APIVersion (Spec unsupportedDeleted) \<noteq> KnativeServiceV1Alpha1 \<and>
   Reconcile (exampleEnv unsupportedDeleted) exampleRequest =
     (Return emptyResult None,
      \<lparr>inst = unsupportedDeleted\<lparr>Finalizers := []\<rparr>,
       hist = [EvGet exampleRequest, EvRegisterExperiment unsupportedDeleted,
               EvUpdate (unsupportedDeleted\<lparr>Finalizers := []\<rparr>)]\<rparr>)"
  by (simp add: Reconcile_def ReconcilePrefix_def RegisterExperiment_def addFinalizerIfAbsent_def
      finalize_def removeFinalizer_def Update_def invalidUpdateErr_def
      exampleEnv_def unsupportedDeleted_def unsupportedExperiment_def exampleExperiment_def
      KubernetesService_def KnativeServiceV1Alpha1_def Let_def)

text \<open>
  C10. For an experiment whose API version is neither the Kubernetes nor the
  Knative one, \<open>finalize\<close> goes straight to the removal of the finalizer token:
  the token is filtered out and the experiment written, which is the only event;
  the action is not touched, no pass runs, nothing is removed from the cache, and
  the error of the write is the error returned.
\<close>

theorem finalize_unsupported:
  assumes "TargetService_APIVersion (Spec (inst s)) \<noteq> KubernetesService"
    and "TargetService_APIVersion (Spec (inst s)) \<noteq> KnativeServiceV1Alpha1"
  shows "finalize env s =
     (let i' = (inst s)\<lparr>Finalizers := filter (\<lambda>f. f \<noteq> Finalizer) (Finalizers (inst s))\<rparr>
      in (Return emptyResult (clientUpdate env (hist s) i'),
          s\<lparr>inst := i', hist := hist s @ [EvUpdate i']\<rparr>))"
  using assms
  by (simp add: finalize_def removeFinalizer_def Update_def withoutFinalizer_filter Let_def)

theorem finalize_unsupported_witness:
  "finalize (exampleEnv unsupportedDeleted) \<lparr>inst = unsupportedDeleted, hist = []\<rparr> =
     (Return emptyResult None,
      \<lparr>inst = unsupportedDeleted\<lparr>Finalizers := []\<rparr>,
       hist = [EvUpdate (unsupportedDeleted\<lparr>Finalizers := []\<rparr>)]\<rparr>)"
proof -
  let ?s = "\<lparr>inst = unsupportedDeleted, hist = []\<rparr>"
  have h1: "TargetService_APIVersion (Spec (inst ?s)) \<noteq> KubernetesService"
    by (simp add: unsupportedDeleted_def unsupportedExperiment_def KubernetesService_def)
  have h2: "TargetService_APIVersion (Spec (inst ?s)) \<noteq> KnativeServiceV1Alpha1"
    by (simp add: unsupportedDeleted_def unsupportedExperiment_def KnativeServiceV1Alpha1_def)
  show ?thesis
    using finalize_unsupported [OF h1 h2, of "exampleEnv unsupportedDeleted"]
    by (simp add: Let_def exampleEnv_def unsupportedDeleted_def unsupportedExperiment_def
        exampleExperiment_def)
qed

subsection \<open>The fetch and the finalizer token\<close>

text \<open>
  C7. When the fetch of the experiment fails, the reconcile does nothing more:
  on a not-found error it returns no requeue and no error, so the work item is
  dropped; on any other error it returns that error, on which the dispatcher
  requeues with backoff.
\<close>

theorem Reconcile_fetch_error:
  "clientGet env [] request = Inl err \<Longrightarrow>
   Reconcile env request =
     (Return emptyResult (if IsNotFound err then None else Some err),
      \<lparr>inst = emptyExperiment, hist = [EvGet request]\<rparr>)"
  by (simp add: Reconcile_def ReconcilePrefix_def)

theorem Reconcile_fetch_error_witness:
  "Reconcile ((exampleEnv exampleExperiment)\<lparr>clientGet := \<lambda>h r. Inl notFoundError\<rparr>)
       exampleRequest =
     (Return emptyResult None, \<lparr>inst = emptyExperiment, hist = [EvGet exampleRequest]\<rparr>) \<and>
   Reconcile ((exampleEnv exampleExperiment)
                \<lparr>clientGet := \<lambda>h r. Inl (Error False ''connection refused'')\<rparr>)
       exampleRequest =
     (Return emptyResult (Some (Error False ''connection refused'')),
      \<lparr>inst = emptyExperiment, hist = [EvGet exampleRequest]\<rparr>)"
proof -
  let ?gone = "(exampleEnv exampleExperiment)\<lparr>clientGet := \<lambda>h r. Inl notFoundError\<rparr>"
  let ?down = "(exampleEnv exampleExperiment)
      \<lparr>clientGet := \<lambda>h r. Inl (Error False ''connection refused'')\<rparr>"
  have h1: "clientGet ?gone [] exampleRequest = Inl notFoundError"
    by simp
  have h2: "clientGet ?down [] exampleRequest = Inl (Error False ''connection refused'')"
    by simp
  show ?thesis
    using Reconcile_fetch_error [OF h1] Reconcile_fetch_error [OF h2]
    by (simp add: notFoundError_def)
qed

text \<open>
  C8. When the name is already among the finalizers of the experiment,
  \<open>addFinalizerIfAbsent\<close> returns no error and the state it was given: nothing is
  written to the cluster, and the finalizers are as they were.
\<close>

theorem addFinalizerIfAbsent_present:
  "fName \<in> set (Finalizers (inst s)) \<Longrightarrow> addFinalizerIfAbsent env s fName = (None, s)"
  by (simp add: addFinalizerIfAbsent_def finalizerPresent_iff)

theorem addFinalizerIfAbsent_present_witness:
  "Finalizer \<in> set (Finalizers exampleExperiment) \<and>
   addFinalizerIfAbsent (exampleEnv exampleExperiment)
       \<lparr>inst = exampleExperiment, hist = []\<rparr> Finalizer
     = (None, \<lparr>inst = exampleExperiment, hist = []\<rparr>)"
proof -
  have h: "Finalizer \<in> set (Finalizers (inst \<lparr>inst = exampleExperiment, hist = []\<rparr>))"
    by (simp add: exampleExperiment_def)
  show ?thesis
    using h addFinalizerIfAbsent_present [OF h, of "exampleEnv exampleExperiment"]
    by simp
qed

end
